theory Spec2Isabelle
  imports Main "HOL-Library.Word"
begin

section \<open>ClusterHealthz: the health evaluation engine of server.py\<close>

text \<open>
  A shallow embedding of the class \<^verbatim>\<open>ClusterHealthz\<close> of \<^verbatim>\<open>src/server.py\<close>.
  Every method takes the object (\<open>self\<close>) and returns its outcome together with the
  object as the call leaves it, so that what a method has written before it raises stays
  visible. The file system, the signal table, the HTTP client and the JSON decoder are
  libraries the class calls; they are the fields of an \<open>environment\<close> passed to each
  call. Log output is not modelled.
\<close>

subsection \<open>Python values, exceptions and outcomes\<close>

text \<open>
  The exceptions the class raises, catches or lets through. A subclass is filed under the
  class whose handler catches it; \<open>OtherError\<close> stands for every exception no handler of
  the class names. \<open>ConnectionError\<close> is \<^verbatim>\<open>requests.ConnectionError\<close>, which is how
  \<^verbatim>\<open>requests.get\<close> reports a host that does not resolve as well as a connection that
  cannot be made: the library wraps the socket's error, \<^verbatim>\<open>socket.gaierror\<close> included.
  \<open>Gaierror\<close> is \<^verbatim>\<open>socket.gaierror\<close> raised as such, for which the class has a handler.
\<close>

datatype py_error =
    SystemExit int
  | TypeError
  | AttributeError
  | KeyError
  | FileNotFoundError
  | JSONDecodeError
  | Gaierror
  | ConnectionError
  | OtherError string

datatype 'a result = Returned 'a | Raised py_error

text \<open>
  The values \<^verbatim>\<open>json.loads\<close> builds, which are also the values a caller can hand to
  \<^verbatim>\<open>process_configuration\<close>. A float is its 64-bit pattern. A dict is its items in
  insertion order; where a key stands twice the first item is the binding.
\<close>

datatype pyval =
    PyNone
  | PyBool bool
  | PyInt int
  | PyFloat "64 word"
  | PyStr string
  | PyList "pyval list"
  | PyDict "(string \<times> pyval) list"

text \<open>Truth value testing, \<^verbatim>\<open>bool(v)\<close>: zero (of either sign) and every empty container are false.\<close>

fun py_truthy :: "pyval \<Rightarrow> bool" where
  "py_truthy PyNone = False"
| "py_truthy (PyBool b) = b"
| "py_truthy (PyInt i) = (i \<noteq> 0)"
| "py_truthy (PyFloat w) = (take_bit 63 w \<noteq> 0)"
| "py_truthy (PyStr s) = (s \<noteq> [])"
| "py_truthy (PyList xs) = (xs \<noteq> [])"
| "py_truthy (PyDict kvs) = (kvs \<noteq> [])"

text \<open>Subscription with a string key, \<^verbatim>\<open>v['key']\<close>.\<close>

fun py_getitem :: "pyval \<Rightarrow> string \<Rightarrow> pyval result" where
  "py_getitem (PyDict kvs) k = (case map_of kvs k of None \<Rightarrow> Raised KeyError | Some v \<Rightarrow> Returned v)"
| "py_getitem _ k = Raised TypeError"

text \<open>\<^verbatim>\<open>len(v)\<close>: defined on strings, lists and dicts only.\<close>

fun py_len :: "pyval \<Rightarrow> nat result" where
  "py_len (PyStr s) = Returned (length s)"
| "py_len (PyList xs) = Returned (length xs)"
| "py_len (PyDict kvs) = Returned (length (remdups (map fst kvs)))"
| "py_len _ = Raised TypeError"

text \<open>
  The elements a \<^verbatim>\<open>for\<close> loop visits: the elements of a list, the keys of a dict, the
  one-character strings of a string.
\<close>

fun py_iter :: "pyval \<Rightarrow> pyval list result" where
  "py_iter (PyList xs) = Returned xs"
| "py_iter (PyDict kvs) = Returned (map PyStr (remdups (map fst kvs)))"
| "py_iter (PyStr s) = Returned (map (\<lambda>c. PyStr [c]) s)"
| "py_iter _ = Raised TypeError"

text \<open>
  \<^verbatim>\<open>x in xs\<close> for a list: some element equals \<open>x\<close>. The class only asks it of a string
  \<open>x\<close>, and a string equals no value of another type.
\<close>

definition py_in :: "pyval \<Rightarrow> pyval list \<Rightarrow> bool" where
  "py_in x xs = list_ex (\<lambda>e. e = x) xs"

definition py_any :: "bool list \<Rightarrow> bool" where
  "py_any bs = list_ex (\<lambda>b. b) bs"

text \<open>\<^verbatim>\<open>s.strip(chars)\<close>: drops the characters of \<open>chars\<close> from both ends of \<open>s\<close>.\<close>

definition py_strip :: "string \<Rightarrow> string \<Rightarrow> string" where
  "py_strip s chars =
     rev (dropWhile (\<lambda>c. c \<in> set chars) (rev (dropWhile (\<lambda>c. c \<in> set chars) s)))"

text \<open>The method call \<^verbatim>\<open>x.strip(chars)\<close> on any value: only a string has the method.\<close>

fun strip_method :: "pyval \<Rightarrow> string \<Rightarrow> string result" where
  "strip_method (PyStr s) chars = Returned (py_strip s chars)"
| "strip_method _ chars = Raised AttributeError"

subsection \<open>The object and its environment\<close>

text \<open>
  The attributes of a \<^verbatim>\<open>ClusterHealthz\<close> object. \<open>alerts\<close> and \<open>status_attr\<close>
  (\<^verbatim>\<open>self._status\<close>) do not exist until they are first assigned: \<open>None\<close> is the
  missing attribute. The attribute \<^verbatim>\<open>self.signal\<close> (the previous handler) is never read
  and is left out.
\<close>

record clusterhealthz =
  prometheus_url :: string
  alerts :: "string list option"
  status_attr :: "string option"

text \<open>
  What the libraries answer at the time of a call:
  \<^item> \<open>getcwd\<close>: \<^verbatim>\<open>os.getcwd()\<close>;
  \<^item> \<open>open_readlines p\<close>: \<^verbatim>\<open>with open(p, 'r') as config: config.readlines()\<close>;
  \<^item> \<open>signal_signal\<close>: \<^verbatim>\<open>signal.signal(signal.SIGHUP, handler)\<close>;
  \<^item> \<open>requests_get u\<close>: the \<^verbatim>\<open>text\<close> of the response of \<^verbatim>\<open>requests.get(u)\<close>;
  \<^item> \<open>json_loads t\<close>: \<^verbatim>\<open>json.loads(t)\<close>.
\<close>

record environment =
  getcwd :: "string result"
  open_readlines :: "string \<Rightarrow> string list result"
  signal_signal :: "unit result"
  requests_get :: "string \<Rightarrow> string result"
  json_loads :: "string \<Rightarrow> pyval result"

subsection \<open>The status property\<close>

definition status :: "clusterhealthz \<Rightarrow> string result" where
  "status self = (case status_attr self of None \<Rightarrow> Raised AttributeError | Some v \<Rightarrow> Returned v)"

definition status_setter :: "clusterhealthz \<Rightarrow> string \<Rightarrow> clusterhealthz" where
  "status_setter self v = self\<lparr>status_attr := Some v\<rparr>"

subsection \<open>Configuration\<close>

text \<open>The list comprehension \<^verbatim>\<open>[x.strip('\n') for x in config_contents]\<close>, left to right.\<close>

fun strip_each :: "pyval list \<Rightarrow> string list result" where
  "strip_each [] = Returned []"
| "strip_each (x # xs) =
     (case strip_method x ''\<newline>'' of
        Raised e \<Rightarrow> Raised e
      | Returned y \<Rightarrow>
         (case strip_each xs of
            Raised e \<Rightarrow> Raised e
          | Returned ys \<Rightarrow> Returned (y # ys)))"

definition process_configuration :: "clusterhealthz \<Rightarrow> pyval \<Rightarrow> unit result \<times> clusterhealthz" where
  "process_configuration self config_contents =
     (case config_contents of
        PyList xs \<Rightarrow>
          (case strip_each xs of
             Raised e \<Rightarrow> (Raised e, self)
           | Returned ys \<Rightarrow> (Returned (), self\<lparr>alerts := Some ys\<rparr>))
      | _ \<Rightarrow> (Raised TypeError, self))"

text \<open>
  The path \<^verbatim>\<open>open_configuration\<close> opens: the argument, or the default under the working
  directory when the argument is \<^verbatim>\<open>None\<close> or empty.
\<close>

definition configuration_path :: "environment \<Rightarrow> string option \<Rightarrow> string result" where
  "configuration_path env alert_configuration_path =
     (if alert_configuration_path = None \<or> alert_configuration_path = Some []
      then (case getcwd env of
              Raised e \<Rightarrow> Raised e
            | Returned cwd \<Rightarrow> Returned (cwd @ ''/config/clusterhealthz.conf''))
      else Returned (the alert_configuration_path))"

definition open_configuration ::
  "environment \<Rightarrow> clusterhealthz \<Rightarrow> string option \<Rightarrow> unit result \<times> clusterhealthz" where
  "open_configuration env self alert_configuration_path =
     (case configuration_path env alert_configuration_path of
        Raised e \<Rightarrow> (Raised e, self)
      | Returned p \<Rightarrow>
         (case open_readlines env p of
            Raised e \<Rightarrow>
              if e = FileNotFoundError then (Raised (SystemExit 1), self)
              else (Raised e, self)
          | Returned config_contents \<Rightarrow>
              process_configuration self (PyList (map PyStr config_contents))))"

definition signal_handler ::
  "environment \<Rightarrow> clusterhealthz \<Rightarrow> int \<Rightarrow> unit \<Rightarrow> unit result \<times> clusterhealthz" where
  "signal_handler env self signum frame = open_configuration env self None"

text \<open>
  \<^verbatim>\<open>__init__\<close>: the new object has the URL only when the configuration is opened; the
  status is assigned after that, and the handler is installed last.
\<close>

definition init :: "environment \<Rightarrow> string \<Rightarrow> unit result \<times> clusterhealthz" where
  "init env url =
     (case open_configuration env \<lparr>prometheus_url = url, alerts = None, status_attr = None\<rparr> None of
        (Raised e, self) \<Rightarrow> (Raised e, self)
      | (Returned u, self) \<Rightarrow>
         (case signal_signal env of
            Raised e \<Rightarrow> (Raised e, status_setter self ''unhealthy'')
          | Returned h \<Rightarrow> (Returned (), status_setter self ''unhealthy'')))"

definition default_prometheus_url :: string where
  "default_prometheus_url = ''service-prometheus.monitoring:9090''"

subsection \<open>Fetch, decode, evaluate\<close>

definition alert_path :: "clusterhealthz \<Rightarrow> string" where
  "alert_path self = ''http://'' @ prometheus_url self @ ''/api/v1/query?query=ALERTS''"

text \<open>
  The last line of \<^verbatim>\<open>get_prometheus_alerts\<close>, \<^verbatim>\<open>return alerts.text\<close>: the local
  \<open>alerts\<close> is the response, or still \<^verbatim>\<open>None\<close>, which has no attribute \<^verbatim>\<open>text\<close>.
\<close>

definition return_alerts_text ::
  "clusterhealthz \<Rightarrow> string option \<Rightarrow> pyval result \<times> clusterhealthz" where
  "return_alerts_text self alerts_local =
     (case alerts_local of
        None \<Rightarrow> (Raised AttributeError, self)
      | Some text \<Rightarrow> (Returned (PyStr text), self))"

text \<open>
  The handler of \<^verbatim>\<open>socket.gaierror\<close> sets the status and falls through to the last
  line; the handler of \<^verbatim>\<open>requests.ConnectionError\<close> sets the status and returns
  \<^verbatim>\<open>None\<close>; any other exception is not caught.
\<close>

definition get_prometheus_alerts :: "environment \<Rightarrow> clusterhealthz \<Rightarrow> pyval result \<times> clusterhealthz" where
  "get_prometheus_alerts env self =
     (case requests_get env (alert_path self) of
        Returned text \<Rightarrow> return_alerts_text self (Some text)
      | Raised e \<Rightarrow>
          if e = Gaierror then return_alerts_text (status_setter self ''unhealthy'') None
          else if e = ConnectionError then (Returned PyNone, status_setter self ''unhealthy'')
          else (Raised e, self))"

text \<open>\<^verbatim>\<open>json.loads\<close> accepts a string (the class passes nothing else that is truthy).\<close>

definition json_prometheus_response ::
  "environment \<Rightarrow> clusterhealthz \<Rightarrow> pyval \<Rightarrow> pyval result \<times> clusterhealthz" where
  "json_prometheus_response env self prometheus_string =
     (case prometheus_string of
        PyStr text \<Rightarrow>
          (case json_loads env text of
             Returned v \<Rightarrow> (Returned v, self)
           | Raised e \<Rightarrow>
               if e = JSONDecodeError then (Returned PyNone, status_setter self ''unhealthy'')
               else (Raised e, self))
      | _ \<Rightarrow> (Raised TypeError, self))"

text \<open>\<^verbatim>\<open>prometheus_query['data']['result']\<close>\<close>

definition data_result :: "pyval \<Rightarrow> pyval result" where
  "data_result prometheus_query =
     (case py_getitem prometheus_query ''data'' of
        Raised e \<Rightarrow> Raised e
      | Returned d \<Rightarrow> py_getitem d ''result'')"

text \<open>
  The loop that appends \<^verbatim>\<open>alert['metric']['alertname']\<close> of each element to
  \<^verbatim>\<open>active_alert_names\<close>.
\<close>

fun active_alert_names :: "pyval list \<Rightarrow> pyval list \<Rightarrow> pyval list result" where
  "active_alert_names acc [] = Returned acc"
| "active_alert_names acc (alert # rest) =
     (case py_getitem alert ''metric'' of
        Raised e \<Rightarrow> Raised e
      | Returned m \<Rightarrow>
         (case py_getitem m ''alertname'' of
            Raised e \<Rightarrow> Raised e
          | Returned n \<Rightarrow> active_alert_names (acc @ [n]) rest))"

text \<open>
  \<^verbatim>\<open>process_prometheus_alerts\<close>. The subscription \<^verbatim>\<open>prometheus_query['data']['result']\<close>
  is evaluated once for \<^verbatim>\<open>len\<close> and once for the loop, with the same value both times.
  \<^verbatim>\<open>self.alerts\<close> is read only after the loop.
\<close>

definition process_prometheus_alerts :: "clusterhealthz \<Rightarrow> pyval \<Rightarrow> unit result \<times> clusterhealthz" where
  "process_prometheus_alerts self prometheus_query =
     (case data_result prometheus_query of
        Raised e \<Rightarrow> (Raised e, self)
      | Returned r \<Rightarrow>
         (case py_len r of
            Raised e \<Rightarrow> (Raised e, self)
          | Returned n \<Rightarrow>
             if n = 0 then (Returned (), status_setter self ''healthy'')
             else
               (case py_iter r of
                  Raised e \<Rightarrow> (Raised e, self)
                | Returned items \<Rightarrow>
                   (case active_alert_names [] items of
                      Raised e \<Rightarrow> (Raised e, self)
                    | Returned names \<Rightarrow>
                       (case alerts self of
                          None \<Rightarrow> (Raised AttributeError, self)
                        | Some watch \<Rightarrow>
                           if py_any (map (\<lambda>x. py_in (PyStr x) names) watch)
                           then (Returned (), status_setter self ''unhealthy'')
                           else (Returned (), status_setter self ''healthy''))))))"

definition start :: "environment \<Rightarrow> clusterhealthz \<Rightarrow> unit result \<times> clusterhealthz" where
  "start env self =
     (case get_prometheus_alerts env self of
        (Raised e, self1) \<Rightarrow> (Raised e, self1)
      | (Returned prometheus_query, self1) \<Rightarrow>
          if py_truthy prometheus_query
          then (case json_prometheus_response env self1 prometheus_query of
                  (Raised e, self2) \<Rightarrow> (Raised e, self2)
                | (Returned prometheus_alerts_json, self2) \<Rightarrow>
                    if py_truthy prometheus_alerts_json
                    then process_prometheus_alerts self2 prometheus_alerts_json
                    else (Returned (), self2))
          else (Returned (), self1))"

text \<open>The route \<^verbatim>\<open>/healthz\<close>: one cycle, then the status.\<close>

definition return_status :: "environment \<Rightarrow> clusterhealthz \<Rightarrow> string result \<times> clusterhealthz" where
  "return_status env self =
     (case start env self of
        (Raised e, self1) \<Rightarrow> (Raised e, self1)
      | (Returned u, self1) \<Rightarrow> (status self1, self1))"

subsection \<open>The shape and the watch list as the specification words them\<close>

text \<open>
  The nested shape of a decoded feed in the specification's words:
  \<^verbatim>\<open>{ data: { result: [ { metric: { alertname, ... }, ... }, ... ] } }\<close>.
\<close>

fun spec_alert_record :: "pyval \<Rightarrow> bool" where
  "spec_alert_record (PyDict kvs) =
     (case map_of kvs ''metric'' of
        Some (PyDict m) \<Rightarrow> map_of m ''alertname'' \<noteq> None
      | _ \<Rightarrow> False)"
| "spec_alert_record _ = False"

fun spec_nested_shape :: "pyval \<Rightarrow> bool" where
  "spec_nested_shape (PyDict kvs) =
     (case map_of kvs ''data'' of
        Some (PyDict d) \<Rightarrow>
          (case map_of d ''result'' of
             Some (PyList items) \<Rightarrow> list_all spec_alert_record items
           | _ \<Rightarrow> False)
      | _ \<Rightarrow> False)"
| "spec_nested_shape _ = False"

text \<open>
  The name of a firing alert in the specification's words: the \<^verbatim>\<open>alertname\<close> of the
  record's \<^verbatim>\<open>metric\<close>, when the record has one.
\<close>

fun spec_alert_name :: "pyval \<Rightarrow> pyval option" where
  "spec_alert_name (PyDict kvs) =
     (case map_of kvs ''metric'' of
        Some (PyDict m) \<Rightarrow> map_of m ''alertname''
      | _ \<Rightarrow> None)"
| "spec_alert_name _ = None"

text \<open>
  The watch list of a configuration in the specification's words: the non-empty lines,
  trimmed of line terminators, without duplicates, in source order.
\<close>

definition spec_watch_list :: "string list \<Rightarrow> string list" where
  "spec_watch_list config_lines =
     remdups (filter (\<lambda>l. l \<noteq> []) (map (\<lambda>l. py_strip l ''\<newline>'') config_lines))"

subsection \<open>The states an object goes through\<close>

text \<open>
  An object exists once \<^verbatim>\<open>__init__\<close> has returned; from then on any method may be
  called on it, in any environment, whatever the outcome of the call.
\<close>

inductive reachable :: "clusterhealthz \<Rightarrow> bool" where
  constructed: "init env url = (Returned (), self) \<Longrightarrow> reachable self"
| after_start: "reachable self \<Longrightarrow> reachable (snd (start env self))"
| after_return_status: "reachable self \<Longrightarrow> reachable (snd (return_status env self))"
| after_signal_handler: "reachable self \<Longrightarrow> reachable (snd (signal_handler env self signum frame))"
| after_open_configuration: "reachable self \<Longrightarrow> reachable (snd (open_configuration env self p))"
| after_process_configuration: "reachable self \<Longrightarrow> reachable (snd (process_configuration self c))"
| after_get_prometheus_alerts: "reachable self \<Longrightarrow> reachable (snd (get_prometheus_alerts env self))"
| after_json_prometheus_response:
    "reachable self \<Longrightarrow> reachable (snd (json_prometheus_response env self t))"
| after_process_prometheus_alerts:
    "reachable self \<Longrightarrow> reachable (snd (process_prometheus_alerts self q))"

text \<open>The stored status is one of the two verdict strings.\<close>

definition two_valued :: "clusterhealthz \<Rightarrow> bool" where
  "two_valued self =
     (status_attr self = Some ''healthy'' \<or> status_attr self = Some ''unhealthy'')"

subsection \<open>Fixtures\<close>

text \<open>
  The feeds of the test suite (\<^verbatim>\<open>clusterhealthz_tests.py\<close>), decoded: a response with
  the given result records, and one record of the \<^verbatim>\<open>ALERTS\<close> series.
\<close>

definition feed :: "pyval list \<Rightarrow> pyval" where
  "feed records =
     PyDict [(''status'', PyStr ''success''),
             (''data'', PyDict [(''resultType'', PyStr ''vector''), (''result'', PyList records)])]"

definition alert_record :: "string \<Rightarrow> string \<Rightarrow> pyval" where
  "alert_record name job =
     PyDict [(''metric'', PyDict [(''__name__'', PyStr ''ALERTS''), (''alertname'', PyStr name),
                                (''alertstate'', PyStr ''firing''), (''job'', PyStr job)]),
             (''value'', PyList [PyFloat 0x41D6728BE03072B0, PyStr ''1''])]"

definition impacting_feed :: pyval where
  "impacting_feed =
     feed [alert_record ''KubernetesMasterDown'' ''alertmanager'',
           alert_record ''ExampleAlertAlwaysFiring'' ''node'',
           alert_record ''ExampleAlertAlwaysFiring'' ''prometheus'',
           alert_record ''ExampleAlertAlwaysFiring'' ''pushgateway'']"

definition non_impacting_feed :: pyval where
  "non_impacting_feed =
     feed [alert_record ''ExampleAlertAlwaysFiring'' ''alertmanager'',
           alert_record ''ExampleAlertAlwaysFiring'' ''node'',
           alert_record ''ExampleAlertAlwaysFiring'' ''prometheus'',
           alert_record ''ExampleAlertAlwaysFiring'' ''pushgateway'']"

definition no_alerts_text :: string where
  \<open>no_alerts_text = ''{"status":"success","data":{"resultType":"vector","result":[]}}''\<close>

text \<open>Two decodable responses off the nested shape: no \<^verbatim>\<open>result\<close> key, and a string for the result.\<close>

definition no_result_text :: string where
  \<open>no_result_text = ''{"data":{}}''\<close>

definition no_result_json :: pyval where
  "no_result_json = PyDict [(''data'', PyDict [])]"

definition string_result_text :: string where
  \<open>string_result_text = ''{"data":{"result":""}}''\<close>

definition string_result_json :: pyval where
  "string_result_json = PyDict [(''data'', PyDict [(''result'', PyStr [])])]"

text \<open>
  The decoder on the texts used below. \<^verbatim>\<open>narp\<close> is the undecodable response of the
  test suite; a text outside the table is answered with an error no handler names.
\<close>

definition fixture_loads :: "string \<Rightarrow> pyval result" where
  \<open>fixture_loads t =
     (if t = ''narp'' then Raised JSONDecodeError
      else if t = no_alerts_text then Returned (feed [])
      else if t = no_result_text then Returned no_result_json
      else if t = string_result_text then Returned string_result_json
      else Raised (OtherError ''text outside the fixture table''))\<close>

text \<open>
  An environment: a working directory with a one-line configuration, a backend that
  answers with no alerts, a signal table that accepts the handler.
\<close>

definition fixture_env :: environment where
  "fixture_env =
     \<lparr>getcwd = Returned ''/srv'',
      open_readlines =
        (\<lambda>p. if p = ''/srv/config/clusterhealthz.conf''
             then Returned [''KubernetesMasterDown\<newline>'']
             else Raised FileNotFoundError),
      signal_signal = Returned (),
      requests_get = (\<lambda>u. Returned no_alerts_text),
      json_loads = fixture_loads\<rparr>"

text \<open>
  The same environment with a backend that answers \<open>text\<close>; with a backend that cannot be
  reached; with a configuration file that is not there; with a configuration file that
  cannot be read; and with a working directory that has been removed.
\<close>

definition answering :: "string \<Rightarrow> environment" where
  "answering text = fixture_env\<lparr>requests_get := \<lambda>u. Returned text\<rparr>"

definition config_missing_env :: environment where
  "config_missing_env = fixture_env\<lparr>open_readlines := \<lambda>p. Raised FileNotFoundError\<rparr>"


definition config_unreadable_env :: environment where
  "config_unreadable_env =
     fixture_env\<lparr>open_readlines := \<lambda>p. Raised (OtherError ''PermissionError'')\<rparr>"

definition cwd_gone_env :: environment where
  "cwd_gone_env = fixture_env\<lparr>getcwd := Raised FileNotFoundError\<rparr>"

text \<open>A configuration with an empty line and a repeated line.\<close>

definition repeating_config :: "string list" where
  "repeating_config = [''a\<newline>'', ''\<newline>'', ''a\<newline>'']"

text \<open>An object after a cycle that found no alerts, and one just constructed.\<close>

definition healthy_engine :: clusterhealthz where
  "healthy_engine =
     \<lparr>prometheus_url = default_prometheus_url,
      alerts = Some [''KubernetesMasterDown''],
      status_attr = Some ''healthy''\<rparr>"

definition fresh_engine :: clusterhealthz where
  "fresh_engine =
     \<lparr>prometheus_url = default_prometheus_url,
      alerts = Some [''KubernetesMasterDown''],
      status_attr = Some ''unhealthy''\<rparr>"

section \<open>Properties\<close>

subsection \<open>Helper facts\<close>

lemma strip_each_strings:
  "strip_each (map PyStr ls) = Returned (map (\<lambda>l. py_strip l ''\<newline>'') ls)"
  by (induction ls) simp_all

lemma py_strip_line:
  assumes "c \<notin> set l"
  shows "py_strip (l @ [c]) [c] = l"
proof (cases "l = []")
  case True
  then show ?thesis by (simp add: py_strip_def)
next
  case False
  with assms have h: "hd l \<noteq> c" and t: "last l \<noteq> c" by auto
  from False h have front: "dropWhile (\<lambda>x. x = c) (l @ [c]) = l @ [c]"
    by (cases l) simp_all
  from False t have rear: "dropWhile (\<lambda>x. x = c) (rev l) = rev l"
    by (simp add: dropWhile_eq_self_iff hd_rev)
  show ?thesis by (simp add: py_strip_def front rear)
qed

lemma process_configuration_frame:
  "status_attr (snd (process_configuration self c)) = status_attr self \<and>
   prometheus_url (snd (process_configuration self c)) = prometheus_url self"
  by (simp add: process_configuration_def split: pyval.splits result.splits)

lemma process_configuration_raised:
  "fst (process_configuration self c) = Raised e \<Longrightarrow> snd (process_configuration self c) = self"
  by (simp add: process_configuration_def split: pyval.splits result.splits)

lemma open_configuration_frame:
  "status_attr (snd (open_configuration env self p)) = status_attr self \<and>
   prometheus_url (snd (open_configuration env self p)) = prometheus_url self"
  by (simp add: open_configuration_def process_configuration_frame split: result.splits)

lemma open_configuration_raised:
  "fst (open_configuration env self p) = Raised e \<Longrightarrow> snd (open_configuration env self p) = self"
  by (simp add: open_configuration_def process_configuration_raised split: result.splits if_splits)

lemma open_configuration_lines:
  "configuration_path env p = Returned path \<Longrightarrow> open_readlines env path = Returned ls \<Longrightarrow>
   open_configuration env self p =
     (Returned (), self\<lparr>alerts := Some (map (\<lambda>l. py_strip l ''\<newline>'') ls)\<rparr>)"
  by (simp add: open_configuration_def process_configuration_def strip_each_strings)

lemma py_any_in_iff:
  "py_any (map (\<lambda>x. py_in (PyStr x) names) watch) \<longleftrightarrow> set names \<inter> PyStr ` set watch \<noteq> {}"
  by (auto simp: py_any_def py_in_def list_ex_iff)

lemma data_result_feed: "data_result (feed records) = Returned (PyList records)"
  by (simp add: data_result_def feed_def)

lemma active_alert_names_records:
  "active_alert_names acc (map (\<lambda>n. alert_record n job) ns) = Returned (acc @ map PyStr ns)"
  by (induction ns arbitrary: acc) (simp_all add: alert_record_def)

lemma py_getitem_raised:
  "py_getitem v k = Raised e \<Longrightarrow> e = KeyError \<or> e = TypeError"
  by (cases v) (auto split: option.splits)

lemma data_result_raised:
  "data_result q = Raised e \<Longrightarrow> e = KeyError \<or> e = TypeError"
  by (auto simp: data_result_def split: result.splits dest: py_getitem_raised)

lemma spec_nested_shape_list:
  "data_result q = Returned (PyList items) \<Longrightarrow> spec_nested_shape q = list_all spec_alert_record items"
  by (cases q) (auto simp: data_result_def split: option.splits result.splits pyval.splits)

text \<open>A record has the specified shape exactly when the loop can take its name.\<close>

lemma spec_alert_record_iff:
  "spec_alert_record x \<longleftrightarrow>
     (\<exists>m n. py_getitem x ''metric'' = Returned m \<and> py_getitem m ''alertname'' = Returned n)"
proof (cases x)
  case (PyDict kvs)
  show ?thesis
  proof (cases "map_of kvs ''metric''")
    case None
    with PyDict show ?thesis by simp
  next
    case (Some m)
    with PyDict show ?thesis by (cases m) (auto split: option.splits)
  qed
qed simp_all

lemma active_alert_names_ill_shaped:
  "\<not> list_all spec_alert_record items \<Longrightarrow>
   active_alert_names acc items = Raised KeyError \<or> active_alert_names acc items = Raised TypeError"
proof (induction items arbitrary: acc)
  case Nil
  then show ?case by simp
next
  case (Cons x xs)
  show ?case
  proof (cases "py_getitem x ''metric''")
    case (Raised e)
    then have "e = KeyError \<or> e = TypeError" by (rule py_getitem_raised)
    with Raised show ?thesis by auto
  next
    case m: (Returned m)
    show ?thesis
    proof (cases "py_getitem m ''alertname''")
      case (Raised e)
      then have "e = KeyError \<or> e = TypeError" by (rule py_getitem_raised)
      with m Raised show ?thesis by auto
    next
      case (Returned n)
      with m have "spec_alert_record x" by (auto simp: spec_alert_record_iff)
      with Cons.prems have "\<not> list_all spec_alert_record xs" by simp
      from Cons.IH [OF this, of "acc @ [n]"] m Returned show ?thesis by simp
    qed
  qed
qed

lemma active_alert_names_strings:
  "items \<noteq> [] \<Longrightarrow> active_alert_names acc (map PyStr items) = Raised TypeError"
  by (cases items) simp_all

lemma active_alert_names_chars:
  "s \<noteq> [] \<Longrightarrow> active_alert_names acc (map (\<lambda>c. PyStr [c]) s) = Raised TypeError"
  by (cases s) simp_all

lemma process_prometheus_alerts_ill_shaped:
  assumes "\<not> spec_nested_shape q"
  shows "process_prometheus_alerts self q = (Raised KeyError, self)
       \<or> process_prometheus_alerts self q = (Raised TypeError, self)
       \<or> ((data_result q = Returned (PyStr []) \<or> data_result q = Returned (PyDict []))
           \<and> process_prometheus_alerts self q = (Returned (), status_setter self ''healthy''))"
proof (cases "data_result q")
  case (Raised e)
  then have "e = KeyError \<or> e = TypeError" by (rule data_result_raised)
  with Raised show ?thesis by (auto simp: process_prometheus_alerts_def)
next
  case (Returned r)
  show ?thesis
  proof (cases r)
    case (PyList items)
    with Returned assms have bad: "\<not> list_all spec_alert_record items"
      by (simp add: spec_nested_shape_list)
    then have "items \<noteq> []" by auto
    with Returned PyList active_alert_names_ill_shaped [OF bad, of "[]"] show ?thesis
      by (auto simp: process_prometheus_alerts_def)
  next
    case (PyStr s)
    with Returned active_alert_names_chars [of s "[]"] show ?thesis
      by (cases "s = []") (auto simp: process_prometheus_alerts_def)
  next
    case (PyDict kvs)
    have "remdups (map fst kvs) \<noteq> [] \<longleftrightarrow> kvs \<noteq> []" by (cases kvs) auto
    with Returned PyDict active_alert_names_strings [of "remdups (map fst kvs)" "[]"] show ?thesis
      by (cases "kvs = []") (auto simp: process_prometheus_alerts_def)
  qed (use Returned in \<open>simp_all add: process_prometheus_alerts_def\<close>)
qed

text \<open>Each method that writes the status writes one of the two verdict strings.\<close>

lemma get_prometheus_alerts_two_valued:
  "two_valued self \<Longrightarrow> two_valued (snd (get_prometheus_alerts env self))"
  by (auto simp: get_prometheus_alerts_def return_alerts_text_def status_setter_def two_valued_def
      split: result.splits)

lemma json_prometheus_response_two_valued:
  "two_valued self \<Longrightarrow> two_valued (snd (json_prometheus_response env self t))"
  by (auto simp: json_prometheus_response_def status_setter_def two_valued_def
      split: result.splits pyval.splits)

lemma process_prometheus_alerts_two_valued:
  "two_valued self \<Longrightarrow> two_valued (snd (process_prometheus_alerts self q))"
  by (auto simp: process_prometheus_alerts_def status_setter_def two_valued_def
      split: result.splits option.splits)

lemma start_two_valued:
  assumes a: "two_valued self"
  shows "two_valued (snd (start env self))"
proof -
  obtain r1 s1 where g: "get_prometheus_alerts env self = (r1, s1)"
    by (cases "get_prometheus_alerts env self")
  have s1: "two_valued s1" using get_prometheus_alerts_two_valued [OF a, of env] g by simp
  show ?thesis
  proof (cases r1)
    case (Raised e)
    then show ?thesis using g s1 by (simp add: start_def)
  next
    case (Returned pq)
    obtain r2 s2 where j: "json_prometheus_response env s1 pq = (r2, s2)"
      by (cases "json_prometheus_response env s1 pq")
    have s2: "two_valued s2" using json_prometheus_response_two_valued [OF s1, of env pq] j by simp
    show ?thesis using g Returned j s1 s2 process_prometheus_alerts_two_valued [OF s2]
      by (cases r2) (simp_all add: start_def)
  qed
qed

lemma init_two_valued:
  "init env url = (Returned (), self) \<Longrightarrow> status_attr self = Some ''unhealthy''"
  by (auto simp: init_def status_setter_def split: prod.splits result.splits)

lemma reachable_two_valued: "reachable self \<Longrightarrow> two_valued self"
proof (induction rule: reachable.induct)
  case (constructed env url self)
  then show ?case by (simp add: two_valued_def init_two_valued)
next
  case (after_start self env)
  from after_start.IH show ?case by (rule start_two_valued)
next
  case (after_return_status self env)
  have "snd (return_status env self) = snd (start env self)"
    by (simp add: return_status_def split: prod.splits result.splits)
  with after_return_status.IH show ?case by (simp add: start_two_valued)
next
  case (after_signal_handler self env signum frame)
  then show ?case by (simp add: two_valued_def signal_handler_def open_configuration_frame)
next
  case (after_open_configuration self env p)
  then show ?case by (simp add: two_valued_def open_configuration_frame)
next
  case (after_process_configuration self c)
  then show ?case by (simp add: two_valued_def process_configuration_frame)
next
  case (after_get_prometheus_alerts self env)
  from after_get_prometheus_alerts.IH show ?case by (rule get_prometheus_alerts_two_valued)
next
  case (after_json_prometheus_response self env t)
  from after_json_prometheus_response.IH show ?case by (rule json_prometheus_response_two_valued)
next
  case (after_process_prometheus_alerts self q)
  from after_process_prometheus_alerts.IH show ?case by (rule process_prometheus_alerts_two_valued)
qed

text \<open>The fixtures run: construction gives the fresh object, a cycle with no alerts the healthy one.\<close>

lemma init_fixture: "init fixture_env default_prometheus_url = (Returned (), fresh_engine)"
  by (simp add: init_def open_configuration_def configuration_path_def process_configuration_def
      fixture_env_def py_strip_def status_setter_def fresh_engine_def)

lemma start_fixture: "start fixture_env fresh_engine = (Returned (), healthy_engine)"
  by (simp add: start_def get_prometheus_alerts_def return_alerts_text_def
      json_prometheus_response_def process_prometheus_alerts_def data_result_def feed_def
      fixture_env_def fixture_loads_def no_alerts_text_def status_setter_def
      healthy_engine_def fresh_engine_def)

text \<open>
  The handler of \<^verbatim>\<open>socket.gaierror\<close>, were \<^verbatim>\<open>requests.get\<close> to raise that exception
  itself: the status is set, and \<^verbatim>\<open>return alerts.text\<close> is reached with \<^verbatim>\<open>alerts\<close>
  still \<^verbatim>\<open>None\<close>.
\<close>

lemma get_prometheus_alerts_gaierror:
  "requests_get env (alert_path self) = Raised Gaierror \<Longrightarrow>
   get_prometheus_alerts env self = (Raised AttributeError, status_setter self ''unhealthy'')"
  by (simp add: get_prometheus_alerts_def return_alerts_text_def)

text \<open>
  The loop takes from each record the name the specification gives it, in order, as long
  as every record has one.
\<close>

lemma spec_alert_name_getitem:
  assumes "spec_alert_name r = Some n"
  shows "\<exists>m. py_getitem r ''metric'' = Returned m \<and> py_getitem m ''alertname'' = Returned n"
proof (cases r)
  case (PyDict kvs)
  with assms obtain m
    where "map_of kvs ''metric'' = Some (PyDict m)" and "map_of m ''alertname'' = Some n"
    by (auto split: option.splits pyval.splits)
  with PyDict show ?thesis by simp
qed (use assms in simp_all)

lemma active_alert_names_spec:
  "map spec_alert_name firing = map Some names \<Longrightarrow>
   active_alert_names acc firing = Returned (acc @ names)"
proof (induction firing arbitrary: acc names)
  case Nil
  then show ?case by simp
next
  case (Cons r rs)
  from Cons.prems obtain n ns where names: "names = n # ns"
    and r: "spec_alert_name r = Some n" and rs: "map spec_alert_name rs = map Some ns"
    by (cases names) auto
  from spec_alert_name_getitem [OF r] obtain m
    where "py_getitem r ''metric'' = Returned m" and "py_getitem m ''alertname'' = Returned n"
    by blast
  with Cons.IH [OF rs, of "acc @ [n]"] names show ?case by simp
qed

subsection \<open>Evaluation\<close>

text \<open>
  C1. Take any feed whose \<^verbatim>\<open>data.result\<close> is a list \<open>firing\<close> of records, \<open>names\<close> being
  the \<^verbatim>\<open>metric.alertname\<close> of each record in order, and any watch list \<open>watch\<close>. When
  \<open>firing\<close> is empty, \<^verbatim>\<open>process_prometheus_alerts\<close> sets the status to \<^verbatim>\<open>healthy\<close>.
  Otherwise it sets the status to \<^verbatim>\<open>unhealthy\<close> if and only if some alert name of the
  firing list is an entry of the watch list, and to \<^verbatim>\<open>healthy\<close> if none is.
\<close>

theorem process_prometheus_alerts_verdict:
  assumes "map_of kvs ''data'' = Some (PyDict d)"
    and "map_of d ''result'' = Some (PyList firing)"
    and "map spec_alert_name firing = map Some names"
    and "alerts self = Some watch"
  shows "process_prometheus_alerts self (PyDict kvs) =
           (Returned (),
            status_setter self
              (if firing = [] then ''healthy''
               else if set names \<inter> PyStr ` set watch \<noteq> {} then ''unhealthy''
               else ''healthy''))"
proof -
  have d: "data_result (PyDict kvs) = Returned (PyList firing)"
    using assms(1,2) by (simp add: data_result_def)
  have n: "active_alert_names [] firing = Returned names"
    using active_alert_names_spec [OF assms(3), of "[]"] by simp
  from d n assms(4) show ?thesis
    by (simp add: process_prometheus_alerts_def py_any_in_iff)
qed

text \<open>
  The two feeds of the test suite against the watch list \<^verbatim>\<open>KubernetesMasterDown\<close>: the
  impacting feed turns the healthy object unhealthy, the other feed turns the unhealthy
  object healthy.
\<close>

theorem process_prometheus_alerts_verdict_witness:
  "map spec_alert_name
     [alert_record ''KubernetesMasterDown'' ''alertmanager'',
      alert_record ''ExampleAlertAlwaysFiring'' ''node'',
      alert_record ''ExampleAlertAlwaysFiring'' ''prometheus'',
      alert_record ''ExampleAlertAlwaysFiring'' ''pushgateway'']
     = map Some [PyStr ''KubernetesMasterDown'', PyStr ''ExampleAlertAlwaysFiring'',
                 PyStr ''ExampleAlertAlwaysFiring'', PyStr ''ExampleAlertAlwaysFiring'']
   \<and> alerts healthy_engine = Some [''KubernetesMasterDown'']
   \<and> alerts fresh_engine = Some [''KubernetesMasterDown'']
   \<and> process_prometheus_alerts healthy_engine impacting_feed = (Returned (), fresh_engine)
   \<and> process_prometheus_alerts fresh_engine non_impacting_feed = (Returned (), healthy_engine)"
proof -
  let ?d = "\<lambda>firing. [(''resultType'', PyStr ''vector''), (''result'', PyList firing)]"
  let ?kvs = "\<lambda>firing. [(''status'', PyStr ''success''), (''data'', PyDict (?d firing))]"
  let ?firing = "[alert_record ''KubernetesMasterDown'' ''alertmanager'',
                  alert_record ''ExampleAlertAlwaysFiring'' ''node'',
                  alert_record ''ExampleAlertAlwaysFiring'' ''prometheus'',
                  alert_record ''ExampleAlertAlwaysFiring'' ''pushgateway'']"
  let ?names = "[PyStr ''KubernetesMasterDown'', PyStr ''ExampleAlertAlwaysFiring'',
                 PyStr ''ExampleAlertAlwaysFiring'', PyStr ''ExampleAlertAlwaysFiring'']"
  let ?quiet = "[alert_record ''ExampleAlertAlwaysFiring'' ''alertmanager'',
                 alert_record ''ExampleAlertAlwaysFiring'' ''node'',
                 alert_record ''ExampleAlertAlwaysFiring'' ''prometheus'',
                 alert_record ''ExampleAlertAlwaysFiring'' ''pushgateway'']"
  let ?quiet_names = "[PyStr ''ExampleAlertAlwaysFiring'', PyStr ''ExampleAlertAlwaysFiring'',
                       PyStr ''ExampleAlertAlwaysFiring'', PyStr ''ExampleAlertAlwaysFiring'']"
  have k: "map_of (?kvs firing) ''data'' = Some (PyDict (?d firing))" for firing by simp
  have r: "map_of (?d firing) ''result'' = Some (PyList firing)" for firing by simp
  have n: "map spec_alert_name ?firing = map Some ?names" by (simp add: alert_record_def)
  have n': "map spec_alert_name ?quiet = map Some ?quiet_names" by (simp add: alert_record_def)
  have w: "alerts healthy_engine = Some [''KubernetesMasterDown'']"
    by (simp add: healthy_engine_def)
  have w': "alerts fresh_engine = Some [''KubernetesMasterDown'']"
    by (simp add: fresh_engine_def)
  have e: "status_setter healthy_engine ''unhealthy'' = fresh_engine"
    by (simp add: status_setter_def healthy_engine_def fresh_engine_def)
  have e': "status_setter fresh_engine ''healthy'' = healthy_engine"
    by (simp add: status_setter_def healthy_engine_def fresh_engine_def)
  from process_prometheus_alerts_verdict [OF k r n w] e
  have i: "process_prometheus_alerts healthy_engine impacting_feed = (Returned (), fresh_engine)"
    by (simp add: impacting_feed_def feed_def)
  from process_prometheus_alerts_verdict [OF k r n' w'] e'
  have q: "process_prometheus_alerts fresh_engine non_impacting_feed = (Returned (), healthy_engine)"
    by (simp add: non_impacting_feed_def feed_def)
  from n w w' i q show ?thesis by simp
qed

subsection \<open>Fetch failures\<close>



subsection \<open>Reload\<close>

text \<open>
  The reload of C3 at a concrete input: the configuration file is not there when the
  signal arrives. The handler does not return; it raises \<^verbatim>\<open>SystemExit(1)\<close>.
\<close>

theorem signal_handler_counterexample:
  "signal_handler config_missing_env healthy_engine 1 () = (Raised (SystemExit 1), healthy_engine)"
  by (simp add: signal_handler_def open_configuration_def configuration_path_def
      config_missing_env_def fixture_env_def)

text \<open>
  C3, amended. A reload fails when the working directory cannot be read or when the
  configuration file cannot be opened and read; when both succeed the reload succeeds and
  replaces the watch list. A reload that fails is not absorbed by the signal handler: the
  exception leaves it, as \<^verbatim>\<open>SystemExit(1)\<close> when the configuration file is not found and
  as itself otherwise. At that point the object is as it was before the reload (watch list
  and status alike), so evaluating the same feed on it gives the same outcome before and
  after.
\<close>

theorem signal_handler_failed_reload:
  "(getcwd env = Raised e \<longrightarrow>
      signal_handler env self signum frame = (Raised e, self))
   \<and> (getcwd env = Returned cwd \<and>
       open_readlines env (cwd @ ''/config/clusterhealthz.conf'') = Raised e \<longrightarrow>
         signal_handler env self signum frame
           = (Raised (if e = FileNotFoundError then SystemExit 1 else e), self))
   \<and> (getcwd env = Returned cwd \<and>
       open_readlines env (cwd @ ''/config/clusterhealthz.conf'') = Returned config_lines \<longrightarrow>
         signal_handler env self signum frame
           = (Returned (), self\<lparr>alerts := Some (map (\<lambda>l. py_strip l ''\<newline>'') config_lines)\<rparr>))
   \<and> (fst (signal_handler env self signum frame) = Raised e \<longrightarrow>
         process_prometheus_alerts (snd (signal_handler env self signum frame)) q
           = process_prometheus_alerts self q)"
proof (intro conjI impI)
  assume "getcwd env = Raised e"
  then show "signal_handler env self signum frame = (Raised e, self)"
    by (simp add: signal_handler_def open_configuration_def configuration_path_def)
next
  assume "getcwd env = Returned cwd \<and>
          open_readlines env (cwd @ ''/config/clusterhealthz.conf'') = Raised e"
  then show "signal_handler env self signum frame
               = (Raised (if e = FileNotFoundError then SystemExit 1 else e), self)"
    by (simp add: signal_handler_def open_configuration_def configuration_path_def)
next
  assume "getcwd env = Returned cwd \<and>
          open_readlines env (cwd @ ''/config/clusterhealthz.conf'') = Returned config_lines"
  then show "signal_handler env self signum frame
               = (Returned (), self\<lparr>alerts := Some (map (\<lambda>l. py_strip l ''\<newline>'') config_lines)\<rparr>)"
    by (simp add: signal_handler_def open_configuration_lines configuration_path_def)
next
  assume "fst (signal_handler env self signum frame) = Raised e"
  then have "snd (signal_handler env self signum frame) = self"
    by (simp add: signal_handler_def open_configuration_raised)
  then show "process_prometheus_alerts (snd (signal_handler env self signum frame)) q
               = process_prometheus_alerts self q"
    by simp
qed

text \<open>
  One reload for each case: the working directory removed, the file missing, the file
  unreadable, and the file in place.
\<close>

theorem signal_handler_failed_reload_witness:
  "getcwd cwd_gone_env = Raised FileNotFoundError
   \<and> signal_handler cwd_gone_env healthy_engine 1 () = (Raised FileNotFoundError, healthy_engine)
   \<and> getcwd config_missing_env = Returned ''/srv''
   \<and> open_readlines config_missing_env (''/srv'' @ ''/config/clusterhealthz.conf'')
       = Raised FileNotFoundError
   \<and> signal_handler config_missing_env healthy_engine 1 ()
       = (Raised (SystemExit 1), healthy_engine)
   \<and> getcwd config_unreadable_env = Returned ''/srv''
   \<and> open_readlines config_unreadable_env (''/srv'' @ ''/config/clusterhealthz.conf'')
       = Raised (OtherError ''PermissionError'')
   \<and> signal_handler config_unreadable_env healthy_engine 1 ()
       = (Raised (OtherError ''PermissionError''), healthy_engine)
   \<and> getcwd fixture_env = Returned ''/srv''
   \<and> open_readlines fixture_env (''/srv'' @ ''/config/clusterhealthz.conf'')
       = Returned [''KubernetesMasterDown\<newline>'']
   \<and> signal_handler fixture_env (healthy_engine\<lparr>alerts := Some []\<rparr>) 1 () = (Returned (), healthy_engine)
   \<and> fst (signal_handler config_missing_env healthy_engine 1 ()) = Raised (SystemExit 1)
   \<and> process_prometheus_alerts (snd (signal_handler config_missing_env healthy_engine 1 ()))
        impacting_feed
       = process_prometheus_alerts healthy_engine impacting_feed"
proof -
  have g0: "getcwd cwd_gone_env = Raised FileNotFoundError"
    by (simp add: cwd_gone_env_def)
  have g1: "getcwd config_missing_env = Returned ''/srv''"
    by (simp add: config_missing_env_def fixture_env_def)
  have o1: "open_readlines config_missing_env (''/srv'' @ ''/config/clusterhealthz.conf'')
              = Raised FileNotFoundError"
    by (simp add: config_missing_env_def)
  have g2: "getcwd config_unreadable_env = Returned ''/srv''"
    by (simp add: config_unreadable_env_def fixture_env_def)
  have o2: "open_readlines config_unreadable_env (''/srv'' @ ''/config/clusterhealthz.conf'')
              = Raised (OtherError ''PermissionError'')"
    by (simp add: config_unreadable_env_def)
  have g3: "getcwd fixture_env = Returned ''/srv''"
    by (simp add: fixture_env_def)
  have o3: "open_readlines fixture_env (''/srv'' @ ''/config/clusterhealthz.conf'')
              = Returned [''KubernetesMasterDown\<newline>'']"
    by (simp add: fixture_env_def)
  have c0: "signal_handler cwd_gone_env healthy_engine 1 () = (Raised FileNotFoundError, healthy_engine)"
    using signal_handler_failed_reload
            [where env = cwd_gone_env and e = FileNotFoundError and self = healthy_engine]
          g0
    by blast
  have c1: "signal_handler config_missing_env healthy_engine 1 ()
              = (Raised (SystemExit 1), healthy_engine)"
    using signal_handler_failed_reload
            [where env = config_missing_env and e = FileNotFoundError and cwd = "''/srv''"
               and self = healthy_engine and signum = 1 and frame = "()"]
          g1 o1
    by simp
  have c2: "signal_handler config_unreadable_env healthy_engine 1 ()
              = (Raised (OtherError ''PermissionError''), healthy_engine)"
    using signal_handler_failed_reload
            [where env = config_unreadable_env and e = "OtherError ''PermissionError''"
               and cwd = "''/srv''" and self = healthy_engine and signum = 1 and frame = "()"]
          g2 o2
    by simp
  have c3: "signal_handler fixture_env (healthy_engine\<lparr>alerts := Some []\<rparr>) 1 ()
              = (Returned (), healthy_engine)"
    using signal_handler_failed_reload
            [where env = fixture_env and cwd = "''/srv''"
               and config_lines = "[''KubernetesMasterDown\<newline>'']"
               and self = "healthy_engine\<lparr>alerts := Some []\<rparr>" and signum = 1 and frame = "()"]
          g3 o3
    by (simp add: py_strip_def healthy_engine_def)
  from c1 have f: "fst (signal_handler config_missing_env healthy_engine 1 ()) = Raised (SystemExit 1)"
    by simp
  have c4: "process_prometheus_alerts (snd (signal_handler config_missing_env healthy_engine 1 ()))
              impacting_feed
            = process_prometheus_alerts healthy_engine impacting_feed"
    using signal_handler_failed_reload
            [where env = config_missing_env and e = "SystemExit 1" and self = healthy_engine
               and signum = 1 and frame = "()" and q = impacting_feed]
          f
    by blast
  from g0 c0 g1 o1 c1 g2 o2 c2 g3 o3 c3 f c4 show ?thesis by simp
qed

subsection \<open>Decoding\<close>

text \<open>
  The parse step of C4 at a concrete input: the response \<^verbatim>\<open>narp\<close> on an object whose
  status is \<^verbatim>\<open>healthy\<close>. The status is \<^verbatim>\<open>unhealthy\<close> after the call, so a store has
  changed.
\<close>

theorem json_prometheus_response_counterexample:
  "json_loads fixture_env ''narp'' = Raised JSONDecodeError
   \<and> status healthy_engine = Returned ''healthy''
   \<and> status (snd (json_prometheus_response fixture_env healthy_engine (PyStr ''narp'')))
       = Returned ''unhealthy''"
  by (simp add: json_prometheus_response_def fixture_env_def fixture_loads_def healthy_engine_def
      status_def status_setter_def)

text \<open>
  C4, amended. For every text that does not decode, \<^verbatim>\<open>json_prometheus_response\<close> returns
  \<^verbatim>\<open>None\<close>, its decode-failure value, and raises nothing; it leaves the watch list and
  the URL as they were and sets the stored status to \<^verbatim>\<open>unhealthy\<close>.
\<close>

theorem json_prometheus_response_decode_failure:
  assumes "json_loads env text = Raised JSONDecodeError"
  shows "json_prometheus_response env self (PyStr text) =
           (Returned PyNone, self\<lparr>status_attr := Some ''unhealthy''\<rparr>)
         \<and> alerts (snd (json_prometheus_response env self (PyStr text))) = alerts self
         \<and> prometheus_url (snd (json_prometheus_response env self (PyStr text))) = prometheus_url self
         \<and> status (snd (json_prometheus_response env self (PyStr text))) = Returned ''unhealthy''"
  using assms by (simp add: json_prometheus_response_def status_setter_def status_def)

theorem json_prometheus_response_decode_failure_witness:
  "json_loads fixture_env ''narp'' = Raised JSONDecodeError
   \<and> json_prometheus_response fixture_env healthy_engine (PyStr ''narp'') = (Returned PyNone, fresh_engine)"
proof -
  have l: "json_loads fixture_env ''narp'' = Raised JSONDecodeError"
    by (simp add: fixture_env_def fixture_loads_def)
  have "healthy_engine\<lparr>status_attr := Some ''unhealthy''\<rparr> = fresh_engine"
    by (simp add: healthy_engine_def fresh_engine_def)
  with json_prometheus_response_decode_failure [OF l, of healthy_engine] l show ?thesis by simp
qed

text \<open>
  The pipeline of C5 at two concrete inputs, both decodable and both off the nested shape.
  A response without the \<^verbatim>\<open>result\<close> key: \<^verbatim>\<open>start\<close> raises \<^verbatim>\<open>KeyError\<close>. A response
  whose result is the empty string: \<^verbatim>\<open>start\<close> turns the unhealthy object healthy.
\<close>

theorem start_ill_shaped_counterexample:
  "json_loads (answering no_result_text) no_result_text = Returned no_result_json
   \<and> \<not> spec_nested_shape no_result_json
   \<and> start (answering no_result_text) healthy_engine = (Raised KeyError, healthy_engine)
   \<and> json_loads (answering string_result_text) string_result_text = Returned string_result_json
   \<and> \<not> spec_nested_shape string_result_json
   \<and> start (answering string_result_text) fresh_engine = (Returned (), healthy_engine)"
  by (simp add: start_def get_prometheus_alerts_def return_alerts_text_def
      json_prometheus_response_def process_prometheus_alerts_def data_result_def
      answering_def fixture_env_def fixture_loads_def no_alerts_text_def
      no_result_text_def no_result_json_def string_result_text_def string_result_json_def
      status_setter_def healthy_engine_def fresh_engine_def)

text \<open>
  C5, amended. A non-empty response that decodes to a payload off the nested shape is not
  treated as a decode failure (nothing sets the status to \<^verbatim>\<open>unhealthy\<close>). One of four
  things happens: \<^verbatim>\<open>start\<close> raises \<^verbatim>\<open>KeyError\<close> (a key is missing), or it raises
  \<^verbatim>\<open>TypeError\<close> (a value that cannot be subscripted or measured stands where an object
  or a list is expected), in both cases with the object unchanged; or the payload is falsy
  and \<^verbatim>\<open>start\<close> returns with the object unchanged; or the result is an empty string or an
  empty object, and \<^verbatim>\<open>start\<close> sets the status to \<^verbatim>\<open>healthy\<close>.
\<close>

theorem start_ill_shaped:
  assumes "requests_get env (alert_path self) = Returned text"
    and "text \<noteq> []"
    and "json_loads env text = Returned q"
    and "\<not> spec_nested_shape q"
  shows "start env self = (Raised KeyError, self)
       \<or> start env self = (Raised TypeError, self)
       \<or> (\<not> py_truthy q \<and> start env self = (Returned (), self))
       \<or> ((data_result q = Returned (PyStr []) \<or> data_result q = Returned (PyDict []))
           \<and> start env self = (Returned (), status_setter self ''healthy''))"
proof (cases "py_truthy q")
  case False
  with assms(1-3) show ?thesis
    by (simp add: start_def get_prometheus_alerts_def return_alerts_text_def
        json_prometheus_response_def)
next
  case True
  with assms(1-3) have "start env self = process_prometheus_alerts self q"
    by (simp add: start_def get_prometheus_alerts_def return_alerts_text_def
        json_prometheus_response_def)
  with process_prometheus_alerts_ill_shaped [OF assms(4), of self] show ?thesis by auto
qed

theorem start_ill_shaped_witness:
  "requests_get (answering no_result_text) (alert_path healthy_engine) = Returned no_result_text
   \<and> no_result_text \<noteq> []
   \<and> json_loads (answering no_result_text) no_result_text = Returned no_result_json
   \<and> \<not> spec_nested_shape no_result_json
   \<and> (start (answering no_result_text) healthy_engine = (Raised KeyError, healthy_engine)
      \<or> start (answering no_result_text) healthy_engine = (Raised TypeError, healthy_engine))"
proof -
  let ?env = "answering no_result_text"
  have g: "requests_get ?env (alert_path healthy_engine) = Returned no_result_text"
    by (simp add: answering_def)
  have n: "no_result_text \<noteq> []" by (simp add: no_result_text_def)
  have l: "json_loads ?env no_result_text = Returned no_result_json"
    by (simp add: answering_def fixture_env_def fixture_loads_def no_alerts_text_def
        no_result_text_def)
  have b: "\<not> spec_nested_shape no_result_json" by (simp add: no_result_json_def)
  have t: "py_truthy no_result_json" by (simp add: no_result_json_def)
  have d: "data_result no_result_json = Raised KeyError"
    by (simp add: data_result_def no_result_json_def)
  from start_ill_shaped [OF g n l b] t d
  have "start ?env healthy_engine = (Raised KeyError, healthy_engine)
      \<or> start ?env healthy_engine = (Raised TypeError, healthy_engine)"
    by simp
  with g n l b show ?thesis by simp
qed

subsection \<open>Configuration\<close>

text \<open>
  The configuration of C6 at a concrete input, a file with an empty line and a repeated
  line: the watch list keeps the empty entry and both copies, where the specification's
  watch list has one entry.
\<close>

theorem process_configuration_counterexample:
  "process_configuration fresh_engine (PyList (map PyStr repeating_config))
     = (Returned (), fresh_engine\<lparr>alerts := Some [''a'', [], ''a'']\<rparr>)
   \<and> \<not> distinct [''a'', [], ''a'']
   \<and> [] \<in> set [''a'', [], ''a'']
   \<and> spec_watch_list repeating_config = [''a'']"
  by (simp add: process_configuration_def py_strip_def spec_watch_list_def repeating_config_def)

text \<open>
  C6, amended. For every configuration read as a list of lines, \<^verbatim>\<open>process_configuration\<close>
  produces a watch list with exactly one entry per line, in source order, each entry being
  its line without the newline characters at its two ends. An empty line gives an empty
  entry, and a repeated line gives a repeated entry.
\<close>

theorem process_configuration_lines:
  "process_configuration self (PyList (map PyStr config_lines)) =
     (Returned (), self\<lparr>alerts := Some (map (\<lambda>l. py_strip l ''\<newline>'') config_lines)\<rparr>)
   \<and> length (map (\<lambda>l. py_strip l ''\<newline>'') config_lines) = length config_lines
   \<and> py_strip ''\<newline>'' ''\<newline>'' = []"
  by (simp add: process_configuration_def strip_each_strings py_strip_def)

text \<open>
  C7. Opening a configuration that is not there fails: the \<^verbatim>\<open>FileNotFoundError\<close> is
  reported (\<^verbatim>\<open>Could not find the configuration file\<close>) and raised on as
  \<^verbatim>\<open>SystemExit(1)\<close>, the source-not-found failure of this class. Processing a
  configuration that is a mapping fails with \<^verbatim>\<open>TypeError\<close>, its invalid-shape failure.
  In both cases the object, and with it the watch list, is unchanged.
\<close>

theorem load_failures:
  "(configuration_path env path = Returned p \<and> open_readlines env p = Raised FileNotFoundError \<longrightarrow>
      open_configuration env self path = (Raised (SystemExit 1), self))
   \<and> process_configuration self (PyDict kvs) = (Raised TypeError, self)"
  by (simp add: open_configuration_def process_configuration_def)

theorem load_failures_witness:
  "configuration_path fixture_env (Some ''does_not_exist'') = Returned ''does_not_exist''
   \<and> open_readlines fixture_env ''does_not_exist'' = Raised FileNotFoundError
   \<and> open_configuration fixture_env fresh_engine (Some ''does_not_exist'')
       = (Raised (SystemExit 1), fresh_engine)
   \<and> process_configuration fresh_engine (PyDict [(''test'', PyStr ''test'')])
       = (Raised TypeError, fresh_engine)"
proof -
  have c: "configuration_path fixture_env (Some ''does_not_exist'') = Returned ''does_not_exist''"
    by (simp add: configuration_path_def)
  have o: "open_readlines fixture_env ''does_not_exist'' = Raised FileNotFoundError"
    by (simp add: fixture_env_def)
  from load_failures [of fixture_env "Some ''does_not_exist''" "''does_not_exist''" fresh_engine
      "[(''test'', PyStr ''test'')]"] c o
  show ?thesis by blast
qed

subsection \<open>The stored status\<close>

text \<open>
  C8. An object that \<^verbatim>\<open>__init__\<close> has just returned, before any cycle, has the status
  \<^verbatim>\<open>unhealthy\<close>.
\<close>

theorem init_status_unhealthy:
  "init env url = (Returned (), self) \<Longrightarrow> status self = Returned ''unhealthy''"
  by (auto simp: init_def status_setter_def status_def split: prod.splits result.splits)

theorem init_status_unhealthy_witness:
  "init fixture_env default_prometheus_url = (Returned (), fresh_engine)
   \<and> status fresh_engine = Returned ''unhealthy''"
proof -
  have i: "init fixture_env default_prometheus_url = (Returned (), fresh_engine)"
    by (rule init_fixture)
  from init_status_unhealthy [OF i] i show ?thesis by simp
qed

text \<open>
  C9. Whatever methods have been called on an object since its construction, in whatever
  environments and with whatever outcomes, the status getter returns \<^verbatim>\<open>healthy\<close> or
  \<^verbatim>\<open>unhealthy\<close>, never a third value.
\<close>

theorem status_two_valued:
  "reachable self \<Longrightarrow> status self = Returned ''healthy'' \<or> status self = Returned ''unhealthy''"
  using reachable_two_valued [of self] by (auto simp: two_valued_def status_def)

theorem status_two_valued_witness:
  "reachable healthy_engine \<and> status healthy_engine = Returned ''healthy''"
proof -
  have "reachable fresh_engine" using init_fixture by (rule constructed)
  then have "reachable (snd (start fixture_env fresh_engine))" by (rule after_start)
  then have r: "reachable healthy_engine" by (simp add: start_fixture)
  have "status healthy_engine \<noteq> Returned ''unhealthy''"
    by (simp add: status_def healthy_engine_def)
  with status_two_valued [OF r] r show ?thesis by simp
qed

text \<open>
  C10. When the backend answers with an empty body, \<^verbatim>\<open>start\<close> writes nothing: it returns
  with the object, status and watch list included, exactly as it was.
\<close>

theorem start_empty_body:
  "requests_get env (alert_path self) = Returned [] \<Longrightarrow> start env self = (Returned (), self)"
  by (simp add: start_def get_prometheus_alerts_def return_alerts_text_def)

theorem start_empty_body_witness:
  "requests_get (answering []) (alert_path healthy_engine) = Returned []
   \<and> start (answering []) healthy_engine = (Returned (), healthy_engine)"
proof -
  have g: "requests_get (answering []) (alert_path healthy_engine) = Returned []"
    by (simp add: answering_def)
  from start_empty_body [OF g] g show ?thesis by simp
qed

end
